theory Spec2Isabelle
  imports Main
begin

section \<open>HTTP values\<close>

text \<open>
  A JSON value as \<^verbatim>\<open>res.json\<close> sends it. An object is an association list, so the
  order and the exact set of its keys are visible.  Strings are lists of characters;
  the two accented letters of the messages are written by their code points.
\<close>

datatype json =
    JNull
  | JBool bool
  | JNum nat
  | JStr string
  | JArr "json list"
  | JObj "(string \<times> json) list"

abbreviation aacute :: char where "aacute \<equiv> CHR 0xE1"
abbreviation atilde :: char where "atilde \<equiv> CHR 0xE3"

record response =
  status :: nat
  json :: json

text \<open>The decoded token payload: the three claims of \<^verbatim>\<open>generateToken\<close> and the two
  time stamps that \<^verbatim>\<open>jwt.sign\<close> adds (seconds since the epoch).\<close>

record payload =
  userId :: nat
  email :: string
  nome :: string
  iat :: nat
  exp :: nat

text \<open>An Express request: \<^verbatim>\<open>req.headers\<close> and \<^verbatim>\<open>req.body\<close> are objects with string
  fields (a missing key reads as \<^verbatim>\<open>undefined\<close>, here \<open>None\<close>); \<^verbatim>\<open>req.user\<close> is
  unset until the access gate sets it.\<close>

record request =
  headers :: "string \<rightharpoonup> string"
  body :: "string \<rightharpoonup> string"
  user :: "payload option"

section \<open>JavaScript string helpers\<close>

text \<open>\<^verbatim>\<open>str.split(sep)\<close> for a one-character separator: the result always has at least one
  part, and the empty string splits into one empty part.\<close>

fun js_split :: "char \<Rightarrow> string \<Rightarrow> string list" where
  "js_split sep [] = [[]]"
| "js_split sep (c # cs) =
     (if c = sep then [] # js_split sep cs
      else (case js_split sep cs of
              [] \<Rightarrow> [[c]]
            | p # ps \<Rightarrow> (c # p) # ps))"

text \<open>\<^verbatim>\<open>xs[i]\<close>: \<^verbatim>\<open>undefined\<close> out of range.\<close>

definition js_index :: "'a list \<Rightarrow> nat \<Rightarrow> 'a option" where
  "js_index xs i = (if i < length xs then Some (xs ! i) else None)"

text \<open>\<^verbatim>\<open>!token\<close> for a value that is \<^verbatim>\<open>undefined\<close> or a string: true for
  \<^verbatim>\<open>undefined\<close> and for the empty string.\<close>

definition js_not :: "string option \<Rightarrow> bool" where
  "js_not v = (case v of None \<Rightarrow> True | Some s \<Rightarrow> s = [])"

text \<open>\<^verbatim>\<open>authHeader && authHeader.split(' ')[1]\<close>: the left operand when it is falsy
  (\<^verbatim>\<open>undefined\<close> or the empty string), the right one otherwise.\<close>

definition header_token :: "string option \<Rightarrow> string option" where
  "header_token authHeader =
     (case authHeader of
        None \<Rightarrow> None
      | Some h \<Rightarrow> if h = [] then Some [] else js_index (js_split CHR '' '' h) 1)"

section \<open>Third-party functions and the environment of a run\<close>

text \<open>
  The packages \<^verbatim>\<open>jsonwebtoken\<close>, \<^verbatim>\<open>bcryptjs\<close> and \<^verbatim>\<open>express-validator\<close> are not part of
  the repository.  Their primitives are parameters of the model, collected in one
  record: the keyed signature and the compact serialisation behind
  \<^verbatim>\<open>jwt.sign\<close>/\<^verbatim>\<open>jwt.verify\<close>, the salted password hash and its comparison, and the
  e-mail validator and sanitizer, and the error object that \<^verbatim>\<open>errors.array()\<close> lists
  for a field and its value.
\<close>

record lib =
  hmac :: "string \<Rightarrow> payload \<Rightarrow> string"
  jwt_encode :: "payload \<times> string \<Rightarrow> string"
  jwt_decode :: "string \<Rightarrow> (payload \<times> string) option"
  bcrypt_hash :: "string \<Rightarrow> nat \<Rightarrow> string \<Rightarrow> string"
  bcrypt_compare :: "string \<Rightarrow> string \<Rightarrow> bool"
  isEmail :: "string \<Rightarrow> bool"
  normalizeEmail :: "string \<Rightarrow> string"
  formatError :: "string \<Rightarrow> string option \<Rightarrow> json"

datatype jwt_error = JsonWebTokenError string | TokenExpiredError string

text \<open>
  Modelled from the spec: \<^verbatim>\<open>jwt.sign\<close> of the package \<^verbatim>\<open>jsonwebtoken\<close>, which is not
  among the sources.  The issuer encodes the three claims plus issued-at and a fixed
  expiry and signs with the shared secret.  \<^verbatim>\<open>jwt.sign(claims, secret, {expiresIn})\<close> at
  clock value \<open>clock\<close> (whole seconds, the unit of the \<^verbatim>\<open>iat\<close> and \<^verbatim>\<open>exp\<close> claims):
  the payload gets \<^verbatim>\<open>iat = clock\<close> and \<^verbatim>\<open>exp = clock + expiresIn\<close>, is signed under the
  secret and serialised.
\<close>

definition jwt_sign :: "lib \<Rightarrow> nat \<times> string \<times> string \<Rightarrow> string \<Rightarrow> nat \<Rightarrow> nat \<Rightarrow> string" where
  "jwt_sign L claims secret expiresIn clock =
     (case claims of (uid, em, nm) \<Rightarrow>
        let p = \<lparr>userId = uid, email = em, nome = nm, iat = clock, exp = clock + expiresIn\<rparr>
        in jwt_encode L (p, hmac L secret p))"

text \<open>
  Modelled from the spec: \<^verbatim>\<open>jwt.verify\<close> of the same package.  A token is accepted only
  if signature verification with the secret succeeds and the current time is before
  expiry; a malformed token, a bad signature and an expired token are the three
  failures.  \<^verbatim>\<open>jwt.verify(token, secret)\<close> at clock value \<open>clock\<close>: the token must parse,
  its signature must be the one the secret gives for its payload, and the clock must
  be before \<^verbatim>\<open>exp\<close>; the result is the payload.
\<close>

definition jwt_verify :: "lib \<Rightarrow> string \<Rightarrow> string \<Rightarrow> nat \<Rightarrow> jwt_error + payload" where
  "jwt_verify L token secret clock =
     (case jwt_decode L token of
        None \<Rightarrow> Inl (JsonWebTokenError ''jwt malformed'')
      | Some (p, sig) \<Rightarrow>
          if sig \<noteq> hmac L secret p then Inl (JsonWebTokenError ''invalid signature'')
          else if exp p \<le> clock then Inl (TokenExpiredError ''jwt expired'')
          else Inr p)"




section \<open>The credential store\<close>

text \<open>
  Modelled from the spec: the module \<^verbatim>\<open>../db\<close> (the connection pool) and the schema of
  the table \<^verbatim>\<open>usuarios\<close> are not among the sources.  A user record has the fields of
  the spec's data model; the store assigns the id on creation and enforces that e-mail
  and national identifier are unique.  The SQL statements themselves are the ones of
  the route handlers.
\<close>

record usuario =
  usuario_id :: nat
  usuario_nome :: string
  cpf :: string
  usuario_email :: string
  telefone :: "string option"
  senha :: string
  ativo :: bool
  ultima_atualizacao :: nat

record db =
  usuarios :: "usuario list"
  next_id :: nat

text \<open>The error object a rejected query carries: \<^verbatim>\<open>err.code\<close> (the SQLSTATE) and
  \<^verbatim>\<open>err.message\<close>.\<close>

record db_error =
  code :: string
  message :: string

definition unique_violation :: db_error where
  "unique_violation =
     \<lparr>code = ''23505'', message = ''duplicate key value violates unique constraint''\<rparr>"

text \<open>A statement maps the store to an error, or to its result rows and the new store.\<close>

type_synonym 'a statement = "db \<Rightarrow> db_error + ('a \<times> db)"

text \<open>\<^verbatim>\<open>SELECT * FROM usuarios WHERE email = $1 AND ativo = true\<close>\<close>

definition select_usuarios_where_email_ativo :: "string \<Rightarrow> usuario list statement" where
  "select_usuarios_where_email_ativo e st =
     Inr (filter (\<lambda>u. usuario_email u = e \<and> ativo u) (usuarios st), st)"

text \<open>\<^verbatim>\<open>UPDATE usuarios SET ultima_atualizacao = CURRENT_TIMESTAMP WHERE id = $1\<close>\<close>

definition update_ultima_atualizacao :: "nat \<Rightarrow> nat \<Rightarrow> unit statement" where
  "update_ultima_atualizacao current_timestamp i st =
     Inr ((), st\<lparr>usuarios :=
                  map (\<lambda>u. if usuario_id u = i
                            then u\<lparr>ultima_atualizacao := current_timestamp\<rparr> else u)
                      (usuarios st)\<rparr>)"

text \<open>\<^verbatim>\<open>SELECT id FROM usuarios WHERE email = $1\<close>\<close>

definition select_id_where_email :: "string \<Rightarrow> nat list statement" where
  "select_id_where_email e st =
     Inr (map usuario_id (filter (\<lambda>u. usuario_email u = e) (usuarios st)), st)"

text \<open>\<^verbatim>\<open>SELECT id FROM usuarios WHERE cpf = $1\<close>\<close>

definition select_id_where_cpf :: "string \<Rightarrow> nat list statement" where
  "select_id_where_cpf c st =
     Inr (map usuario_id (filter (\<lambda>u. cpf u = c) (usuarios st)), st)"

text \<open>
  \<^verbatim>\<open>INSERT INTO usuarios (nome, cpf, email, telefone, senha) VALUES ($1, $2, $3, $4, $5)
  RETURNING id, nome, email\<close>.
  The store rejects the row with a uniqueness violation when the e-mail or the national
  identifier is already present; otherwise the row gets a fresh id, is active (a token
  of a user who has just registered verifies), and its id, name and e-mail are
  returned.
\<close>

definition insert_usuario ::
  "nat \<Rightarrow> string \<Rightarrow> string \<Rightarrow> string \<Rightarrow> string option \<Rightarrow> string
     \<Rightarrow> (nat \<times> string \<times> string) list statement" where
  "insert_usuario current_timestamp n c e t h st =
     (if list_ex (\<lambda>u. usuario_email u = e \<or> cpf u = c) (usuarios st)
      then Inl unique_violation
      else let u = \<lparr>usuario_id = next_id st, usuario_nome = n, cpf = c, usuario_email = e,
                     telefone = t, senha = h, ativo = True,
                     ultima_atualizacao = current_timestamp\<rparr>
           in Inr ([(usuario_id u, usuario_nome u, usuario_email u)],
                   st\<lparr>usuarios := usuarios st @ [u], next_id := Suc (next_id st)\<rparr>))"

text \<open>\<^verbatim>\<open>SELECT id, nome, email FROM usuarios WHERE id = $1 AND ativo = true\<close>\<close>

definition select_id_nome_email_where_id_ativo ::
  "nat \<Rightarrow> (nat \<times> string \<times> string) list statement" where
  "select_id_nome_email_where_id_ativo i st =
     Inr (map (\<lambda>u. (usuario_id u, usuario_nome u, usuario_email u))
              (filter (\<lambda>u. usuario_id u = i \<and> ativo u) (usuarios st)), st)"

text \<open>\<^verbatim>\<open>UPDATE usuarios SET ativo = false WHERE id = $1\<close>, as an administrator of the store
  issues it; no route of the repository changes the flag.\<close>

definition desativar :: "nat \<Rightarrow> db \<Rightarrow> db" where
  "desativar i st =
     st\<lparr>usuarios := map (\<lambda>u. if usuario_id u = i then u\<lparr>ativo := False\<rparr> else u)
                         (usuarios st)\<rparr>"

text \<open>
  What a handler run does not control: the environment variable holding the secret, the
  clock (whole seconds), the salt drawn by the password hash, and, for the \<open>k\<close>-th
  \<^verbatim>\<open>await pool.query\<close> of the run, what requests served in the meantime did to the
  store (\<open>conc\<close>) and whether the query is rejected for a reason of its own, such as a
  lost connection (\<open>fault\<close>).
\<close>

record world =
  env_JWT_SECRET :: "string option"
  now :: nat
  salt :: string
  fault :: "nat \<Rightarrow> db_error option"
  conc :: "nat \<Rightarrow> db \<Rightarrow> db"

text \<open>\<^verbatim>\<open>await pool.query(...)\<close>, the \<open>k\<close>-th of a handler run: the error of a rejected
  query (the \<^verbatim>\<open>catch\<close> branch of the caller) or the rows.\<close>

definition pool_query :: "world \<Rightarrow> nat \<Rightarrow> 'a statement \<Rightarrow> db \<Rightarrow> (db_error + 'a) \<times> db" where
  "pool_query W k stmt st =
     (let st1 = conc W k st in
      case fault W k of
        Some err \<Rightarrow> (Inl err, st1)
      | None \<Rightarrow>
          (case stmt st1 of
             Inl err \<Rightarrow> (Inl err, st1)
           | Inr (rows, st2) \<Rightarrow> (Inr rows, st2)))"

text \<open>A run during which no other request touches the store; queries may still be
  rejected as \<open>f\<close> says.\<close>

definition alone :: "world \<Rightarrow> bool" where
  "alone W = (\<forall>k st. conc W k st = st)"

section \<open>middleware/auth.js\<close>

text \<open>\<^verbatim>\<open>process.env.JWT_SECRET || '...'\<close>: the default when the variable is unset or
  empty.\<close>

definition JWT_SECRET :: "world \<Rightarrow> string" where
  "JWT_SECRET W =
     (case env_JWT_SECRET W of
        None \<Rightarrow> ''sua_chave_secreta_super_segura_aqui_mude_em_producao''
      | Some s \<Rightarrow>
          if s = [] then ''sua_chave_secreta_super_segura_aqui_mude_em_producao'' else s)"

text \<open>The middleware gets the request and the rest of the route as \<open>next\<close>; what it
  returns is the response the client sees.\<close>

definition authenticateToken :: "lib \<Rightarrow> world \<Rightarrow> request \<Rightarrow> (request \<Rightarrow> response) \<Rightarrow> response" where
  "authenticateToken L W req next =
     (let authHeader = headers req ''authorization'';
          token = header_token authHeader
      in if js_not token
         then \<lparr>status = 401, json = JObj [(''error'', JStr ''Token de acesso requerido'')]\<rparr>
         else (case jwt_verify L (the token) (JWT_SECRET W) (now W) of
                 Inl err \<Rightarrow>
                   \<lparr>status = 403,
                    json = JObj [(''error'', JStr (''Token inv'' @ [aacute] @ ''lido ou expirado''))]\<rparr>
               | Inr decoded \<Rightarrow> next (req\<lparr>user := Some decoded\<rparr>)))"

section \<open>routes/auth.js\<close>

subsection \<open>Token issue\<close>

text \<open>\<^verbatim>\<open>expiresIn: '24h'\<close>, in seconds.\<close>

definition expiresIn :: nat where
  "expiresIn = 24 * 60 * 60"

definition generateToken :: "lib \<Rightarrow> world \<Rightarrow> nat \<Rightarrow> string \<Rightarrow> string \<Rightarrow> string" where
  "generateToken L W uid em nm = jwt_sign L (uid, em, nm) (JWT_SECRET W) expiresIn (now W)"

subsection \<open>Validation chains\<close>

text \<open>A validator sees the field as a string; a missing field is the empty string.\<close>

definition field :: "request \<Rightarrow> string \<Rightarrow> string" where
  "field req f = (case body req f of None \<Rightarrow> [] | Some v \<Rightarrow> v)"

text \<open>\<^verbatim>\<open>isLength({min, max})\<close>; no \<^verbatim>\<open>max\<close> is \<open>None\<close>.\<close>

definition isLength :: "nat \<Rightarrow> nat option \<Rightarrow> string \<Rightarrow> bool" where
  "isLength mn mx s =
     (mn \<le> length s \<and> (case mx of None \<Rightarrow> True | Some m \<Rightarrow> length s \<le> m))"

text \<open>The two regular expressions are sequences of literal characters, digits
  \<^verbatim>\<open>\d\<close> and, for \<^verbatim>\<open>\d{4,5}\<close>, one optional digit; both are anchored at the two
  ends of the string.\<close>

datatype pat = Lit char | Digit | OptDigit

definition is_digit :: "char \<Rightarrow> bool" where
  "is_digit c = (c \<in> set ''0123456789'')"

fun matches :: "pat list \<Rightarrow> string \<Rightarrow> bool" where
  "matches [] s = (s = [])"
| "matches (Lit x # ps) s = (case s of [] \<Rightarrow> False | c # cs \<Rightarrow> c = x \<and> matches ps cs)"
| "matches (Digit # ps) s = (case s of [] \<Rightarrow> False | c # cs \<Rightarrow> is_digit c \<and> matches ps cs)"
| "matches (OptDigit # ps) s =
     ((case s of [] \<Rightarrow> False | c # cs \<Rightarrow> is_digit c \<and> matches ps cs) \<or> matches ps s)"

text \<open>\<^verbatim>\<open>/^\d{3}\.\d{3}\.\d{3}-\d{2}$/\<close>\<close>

definition cpf_regex :: "pat list" where
  "cpf_regex =
     [Digit, Digit, Digit, Lit CHR ''.'', Digit, Digit, Digit, Lit CHR ''.'',
      Digit, Digit, Digit, Lit CHR ''-'', Digit, Digit]"

text \<open>\<^verbatim>\<open>/^\(\d{2}\) \d{4,5}-\d{4}$/\<close>\<close>

definition telefone_regex :: "pat list" where
  "telefone_regex =
     [Lit CHR ''('', Digit, Digit, Lit CHR '')'', Lit CHR '' '',
      Digit, Digit, Digit, Digit, OptDigit, Lit CHR ''-'', Digit, Digit, Digit, Digit]"

text \<open>\<^verbatim>\<open>trim()\<close>: white space removed at both ends.\<close>

definition is_space :: "char \<Rightarrow> bool" where
  "is_space c =
     (c \<in> set [CHR 0x09, CHR 0x0A, CHR 0x0B, CHR 0x0C, CHR 0x0D, CHR 0x20, CHR 0xA0])"

definition trim :: "string \<Rightarrow> string" where
  "trim s = rev (dropWhile is_space (rev (dropWhile is_space s)))"

text \<open>One chain: the error object of the field when its test fails.\<close>

definition check :: "lib \<Rightarrow> request \<Rightarrow> string \<Rightarrow> (string \<Rightarrow> bool) \<Rightarrow> json list" where
  "check L req f test = (if test (field req f) then [] else [formatError L f (body req f)])"

text \<open>\<^verbatim>\<open>optional()\<close>: the chain is skipped when the field is \<^verbatim>\<open>undefined\<close>.\<close>

definition check_optional :: "lib \<Rightarrow> request \<Rightarrow> string \<Rightarrow> (string \<Rightarrow> bool) \<Rightarrow> json list" where
  "check_optional L req f test = (case body req f of None \<Rightarrow> [] | Some v \<Rightarrow> check L req f test)"

definition login_chains :: "lib \<Rightarrow> request \<Rightarrow> json list" where
  "login_chains L req =
     check L req ''email'' (isEmail L) @
     check L req ''senha'' (isLength 1 None)"

definition register_chains :: "lib \<Rightarrow> request \<Rightarrow> json list" where
  "register_chains L req =
     check L req ''nome'' (isLength 2 (Some 100)) @
     check L req ''cpf'' (matches cpf_regex) @
     check L req ''email'' (isEmail L) @
     check_optional L req ''telefone'' (matches telefone_regex) @
     check L req ''senha'' (isLength 6 None)"

subsection \<open>Responses\<close>

definition dados_invalidos :: "json list \<Rightarrow> response" where
  "dados_invalidos errors =
     \<lparr>status = 400,
      json = JObj [(''error'', JStr (''Dados inv'' @ [aacute] @ ''lidos'')),
                   (''details'', JArr errors)]\<rparr>"

definition erro_interno :: "db_error \<Rightarrow> response" where
  "erro_interno err =
     \<lparr>status = 500,
      json = JObj [(''error'', JStr ''Erro interno do servidor''),
                   (''details'', JStr (message err))]\<rparr>"

definition credenciais_incorretas :: response where
  "credenciais_incorretas =
     \<lparr>status = 401, json = JObj [(''error'', JStr ''Email ou senha incorretos'')]\<rparr>"

definition public_user :: "nat \<Rightarrow> string \<Rightarrow> string \<Rightarrow> json" where
  "public_user i n e = JObj [(''id'', JNum i), (''nome'', JStr n), (''email'', JStr e)]"

text \<open>The \<^verbatim>\<open>TypeError\<close> of reading a property of \<^verbatim>\<open>undefined\<close>, as the \<^verbatim>\<open>catch\<close> block
  sees it.\<close>

definition type_error :: db_error where
  "type_error = \<lparr>code = [], message = ''Cannot read properties of undefined''\<rparr>"

subsection \<open>POST /login\<close>

definition login :: "lib \<Rightarrow> world \<Rightarrow> request \<Rightarrow> db \<Rightarrow> response \<times> db" where
  "login L W req st =
     (let errors = login_chains L req in
      if errors \<noteq> [] then (dados_invalidos errors, st)
      else
        let email_in = normalizeEmail L (field req ''email'');
            senha_in = field req ''senha''
        in case pool_query W 0 (select_usuarios_where_email_ativo email_in) st of
             (Inl err, st1) \<Rightarrow> (erro_interno err, st1)
           | (Inr rows, st1) \<Rightarrow>
               if length rows = 0 then (credenciais_incorretas, st1)
               else
                 let user = rows ! 0;
                     senhaValida = bcrypt_compare L senha_in (senha user)
                 in if \<not> senhaValida then (credenciais_incorretas, st1)
                    else
                      let token = generateToken L W (usuario_id user) (usuario_email user)
                                    (usuario_nome user)
                      in case pool_query W 1
                                (update_ultima_atualizacao (now W) (usuario_id user)) st1 of
                           (Inl err, st2) \<Rightarrow> (erro_interno err, st2)
                         | (Inr _, st2) \<Rightarrow>
                             (\<lparr>status = 200,
                               json = JObj [(''message'', JStr ''Login realizado com sucesso''),
                                            (''token'', JStr token),
                                            (''user'', public_user (usuario_id user)
                                                         (usuario_nome user) (usuario_email user))]\<rparr>,
                              st2))"

subsection \<open>POST /register\<close>

definition register :: "lib \<Rightarrow> world \<Rightarrow> request \<Rightarrow> db \<Rightarrow> response \<times> db" where
  "register L W req st =
     (let errors = register_chains L req in
      if errors \<noteq> [] then (dados_invalidos errors, st)
      else
        let nome_in = trim (field req ''nome'');
            cpf_in = field req ''cpf'';
            email_in = normalizeEmail L (field req ''email'');
            telefone_in = body req ''telefone'';
            senha_in = field req ''senha''
        in case pool_query W 0 (select_id_where_email email_in) st of
             (Inl err, st1) \<Rightarrow> (erro_interno err, st1)
           | (Inr emailExists, st1) \<Rightarrow>
               if length emailExists > 0
               then (\<lparr>status = 409,
                      json = JObj [(''error'',
                        JStr (''Este email j'' @ [aacute] @ '' est'' @ [aacute] @ '' cadastrado''))]\<rparr>,
                     st1)
               else
                 (case pool_query W 1 (select_id_where_cpf cpf_in) st1 of
                    (Inl err, st2) \<Rightarrow> (erro_interno err, st2)
                  | (Inr cpfExists, st2) \<Rightarrow>
                      if length cpfExists > 0
                      then (\<lparr>status = 409,
                             json = JObj [(''error'',
                               JStr (''Este CPF j'' @ [aacute] @ '' est'' @ [aacute] @ '' cadastrado''))]\<rparr>,
                            st2)
                      else
                        let saltRounds = 12;
                            senhaHash = bcrypt_hash L senha_in saltRounds (salt W)
                        in case pool_query W 2
                                  (insert_usuario (now W) nome_in cpf_in email_in telefone_in
                                     senhaHash) st2 of
                             (Inl err, st3) \<Rightarrow> (erro_interno err, st3)
                           | (Inr rows, st3) \<Rightarrow>
                               (case rows of
                                  [] \<Rightarrow> (erro_interno type_error, st3)
                                | (new_id, new_nome, new_email) # _ \<Rightarrow>
                                    let token = generateToken L W new_id new_email new_nome
                                    in (\<lparr>status = 201,
                                         json = JObj
                                           [(''message'',
                                             JStr (''Usu'' @ [aacute] @ ''rio cadastrado com sucesso'')),
                                            (''token'', JStr token),
                                            (''user'', public_user new_id new_nome new_email)]\<rparr>,
                                        st3))))"

subsection \<open>GET /verify\<close>

definition token_invalido :: response where
  "token_invalido =
     \<lparr>status = 401, json = JObj [(''error'', JStr (''Token inv'' @ [aacute] @ ''lido''))]\<rparr>"

definition verify :: "lib \<Rightarrow> world \<Rightarrow> request \<Rightarrow> db \<Rightarrow> response \<times> db" where
  "verify L W req st =
     (let authHeader = headers req ''authorization'';
          token = header_token authHeader
      in if js_not token
         then (\<lparr>status = 401,
                json = JObj [(''error'', JStr (''Token n'' @ [atilde] @ ''o fornecido''))]\<rparr>, st)
         else (case jwt_verify L (the token) (JWT_SECRET W) (now W) of
                 Inl err \<Rightarrow> (token_invalido, st)
               | Inr decoded \<Rightarrow>
                   (case pool_query W 0
                           (select_id_nome_email_where_id_ativo (userId decoded)) st of
                      (Inl err, st1) \<Rightarrow> (token_invalido, st1)
                    | (Inr rows, st1) \<Rightarrow>
                        if length rows = 0
                        then (\<lparr>status = 401,
                               json = JObj [(''error'',
                                 JStr (''Usu'' @ [aacute] @ ''rio n'' @ [atilde]
                                       @ ''o encontrado ou inativo''))]\<rparr>, st1)
                        else (case rows ! 0 of (i, n, e) \<Rightarrow>
                                (\<lparr>status = 200,
                                  json = JObj [(''valid'', JBool True),
                                               (''user'', public_user i n e)]\<rparr>, st1)))))"

section \<open>A concrete instance\<close>

text \<open>
  A small instance of the parameters, on which the definitions run: a signature that
  concatenates, a codec that knows one token, a hash that prefixes the two-character
  salt, and a store that is empty or holds one user.
\<close>

definition ana_payload :: payload where
  "ana_payload =
     \<lparr>userId = 1, email = ''ana@x.com'', nome = ''Ana Silva'', iat = 1000, exp = 87400\<rparr>"

definition demo_hmac :: "string \<Rightarrow> payload \<Rightarrow> string" where
  "demo_hmac secret p = secret @ ''#'' @ email p"

definition ana_jwt :: "payload \<times> string" where
  "ana_jwt =
     (ana_payload, ''sua_chave_secreta_super_segura_aqui_mude_em_producao#ana@x.com'')"

definition demo_lib :: lib where
  "demo_lib =
     \<lparr>hmac = demo_hmac,
      jwt_encode = (\<lambda>j. if j = ana_jwt then ''ana-token'' else ''other-token''),
      jwt_decode = (\<lambda>s. if s = ''ana-token'' then Some ana_jwt else None),
      bcrypt_hash = (\<lambda>p rounds s. s @ p),
      bcrypt_compare = (\<lambda>p h. drop 2 h = p),
      isEmail = (\<lambda>s. CHR ''@'' \<in> set s),
      normalizeEmail = (\<lambda>s. s),
      formatError = (\<lambda>f v. JObj [(''param'', JStr f)])\<rparr>"

definition demo_world :: "nat \<Rightarrow> world" where
  "demo_world clock =
     \<lparr>env_JWT_SECRET = None, now = clock, salt = ''s1'',
      fault = (\<lambda>k. None), conc = (\<lambda>k st. st)\<rparr>"

definition empty_db :: db where
  "empty_db = \<lparr>usuarios = [], next_id = 1\<rparr>"

definition ana :: usuario where
  "ana =
     \<lparr>usuario_id = 1, usuario_nome = ''Ana Silva'', cpf = ''123.456.789-01'',
      usuario_email = ''ana@x.com'', telefone = None, senha = ''s1segredo1'',
      ativo = True, ultima_atualizacao = 1000\<rparr>"

definition ana_db :: db where
  "ana_db = \<lparr>usuarios = [ana], next_id = 2\<rparr>"

definition bearer :: "string \<Rightarrow> request" where
  "bearer h = \<lparr>headers = [''authorization'' \<mapsto> h], body = Map.empty, user = None\<rparr>"

definition post :: "(string \<times> string) list \<Rightarrow> request" where
  "post kvs = \<lparr>headers = Map.empty, body = map_of kvs, user = None\<rparr>"

definition ana_register :: request where
  "ana_register =
     post [(''nome'', ''Ana Silva''), (''cpf'', ''123.456.789-01''),
           (''email'', ''ana@x.com''), (''senha'', ''segredo1'')]"

definition bob :: usuario where
  "bob =
     \<lparr>usuario_id = 2, usuario_nome = ''Bob Lima'', cpf = ''111.222.333-44'',
      usuario_email = ''bob@x.com'', telefone = Some ''(11) 91234-5678'', senha = ''s1abc'',
      ativo = True, ultima_atualizacao = 1500\<rparr>"

definition two_db :: db where
  "two_db = \<lparr>usuarios = [ana, bob], next_id = 3\<rparr>"

text \<open>A second registration with Ana's e-mail and another national identifier, and a run
  of Ana's registration during which that second request is served between the CPF
  pre-check and the insert.\<close>

definition rival_register :: request where
  "rival_register =
     post [(''nome'', ''Ana Souza''), (''cpf'', ''987.654.321-00''),
           (''email'', ''ana@x.com''), (''senha'', ''outrasenha'')]"

definition race_world :: world where
  "race_world =
     \<lparr>env_JWT_SECRET = None, now = 1000, salt = ''s1'', fault = (\<lambda>k. None),
      conc = (\<lambda>k st. if k = 2 then snd (register demo_lib (demo_world 1000) rival_register st)
                       else st)\<rparr>"



text \<open>A downstream handler that answers with the id of the authenticated user.\<close>

definition whoami :: "request \<Rightarrow> response" where
  "whoami req =
     \<lparr>status = 200,
      json = (case user req of None \<Rightarrow> JNull | Some p \<Rightarrow> JNum (userId p))\<rparr>"

section \<open>Named responses\<close>

definition acesso_requerido :: response where
  "acesso_requerido =
     \<lparr>status = 401, json = JObj [(''error'', JStr ''Token de acesso requerido'')]\<rparr>"

definition token_invalido_ou_expirado :: response where
  "token_invalido_ou_expirado =
     \<lparr>status = 403,
      json = JObj [(''error'', JStr (''Token inv'' @ [aacute] @ ''lido ou expirado''))]\<rparr>"

definition usuario_inativo :: response where
  "usuario_inativo =
     \<lparr>status = 401,
      json = JObj [(''error'',
        JStr (''Usu'' @ [aacute] @ ''rio n'' @ [atilde] @ ''o encontrado ou inativo''))]\<rparr>"

definition email_ja_cadastrado :: response where
  "email_ja_cadastrado =
     \<lparr>status = 409,
      json = JObj [(''error'',
        JStr (''Este email j'' @ [aacute] @ '' est'' @ [aacute] @ '' cadastrado''))]\<rparr>"

definition cpf_ja_cadastrado :: response where
  "cpf_ja_cadastrado =
     \<lparr>status = 409,
      json = JObj [(''error'',
        JStr (''Este CPF j'' @ [aacute] @ '' est'' @ [aacute] @ '' cadastrado''))]\<rparr>"

section \<open>Splitting the header\<close>

lemma js_split_not_Nil: "js_split sep s \<noteq> []"
  by (induction s) (auto split: list.splits)

lemma js_split_no_sep: "sep \<notin> set s \<Longrightarrow> js_split sep s = [s]"
  by (induction s) auto

lemma js_split_first_word:
  "sep \<notin> set w \<Longrightarrow> js_split sep (w @ sep # r) = w # js_split sep r"
  by (induction w) auto

lemma header_token_no_space:
  "CHR '' '' \<notin> set h \<Longrightarrow> js_not (header_token (Some h))"
  by (simp add: header_token_def js_not_def js_index_def js_split_no_sep)

lemma header_token_two_words:
  assumes "CHR '' '' \<notin> set w" and "CHR '' '' \<notin> set t"
  shows "header_token (Some (w @ '' '' @ t)) = Some t"
  using assms by (simp add: header_token_def js_index_def js_split_first_word js_split_no_sep)

lemma header_token_parts:
  "header_token (Some h) =
     (if 2 \<le> length (js_split CHR '' '' h) then Some (js_split CHR '' '' h ! 1)
      else if h = [] then Some [] else None)"
  by (cases h) (auto simp: header_token_def js_index_def)

lemma header_token_None: "header_token None = None"
  by (simp add: header_token_def)

section \<open>The access gate\<close>

lemma authenticateToken_cases:
  "authenticateToken L W req next =
     (case header_token (headers req ''authorization'') of
        None \<Rightarrow> acesso_requerido
      | Some t \<Rightarrow>
          if t = [] then acesso_requerido
          else (case jwt_verify L t (JWT_SECRET W) (now W) of
                  Inl err \<Rightarrow> token_invalido_ou_expirado
                | Inr decoded \<Rightarrow> next (req\<lparr>user := Some decoded\<rparr>)))"
  by (simp add: authenticateToken_def js_not_def acesso_requerido_def
      token_invalido_ou_expirado_def split: option.splits sum.splits)

lemma demo_verify_ana:
  "jwt_verify demo_lib ''ana-token'' (JWT_SECRET (demo_world 2000)) 2000 = Inr ana_payload"
  by (simp add: jwt_verify_def demo_lib_def ana_jwt_def demo_hmac_def JWT_SECRET_def
      demo_world_def ana_payload_def)

lemma demo_verify_other:
  "jwt_verify demo_lib ''abc'' secret clock = Inl (JsonWebTokenError ''jwt malformed'')"
  by (simp add: jwt_verify_def demo_lib_def)

lemma demo_generate:
  "generateToken demo_lib (demo_world 1000) 1 ''ana@x.com'' ''Ana Silva'' = ''ana-token''"
  by (simp add: generateToken_def jwt_sign_def demo_lib_def demo_world_def expiresIn_def
      ana_jwt_def ana_payload_def demo_hmac_def JWT_SECRET_def)

text \<open>
  Claim C1.  The gate has three outcomes, and the header and the token decide which.
  When the \<^verbatim>\<open>Authorization\<close> header is absent, or has no second space-separated part
  (none at all, or an empty one), the response is 401 whatever the downstream handler
  is, so the handler is not reached.  When the second part is a non-empty token, the
  response is 403 with the error body \<open>token_invalido_ou_expirado\<close> if
  \<^verbatim>\<open>jwt.verify\<close> reports an error, and otherwise the response of the downstream handler
  on the request with the decoded claims attached as \<^verbatim>\<open>req.user\<close>.
\<close>

theorem gate_outcome:
  "((headers req ''authorization'' = None \<or>
      (\<exists>h. headers req ''authorization'' = Some h \<and>
           (length (js_split CHR '' '' h) < 2 \<or> js_split CHR '' '' h ! 1 = []))) \<longrightarrow>
     authenticateToken L W req next = acesso_requerido)
   \<and> (headers req ''authorization'' = Some h \<and> 2 \<le> length (js_split CHR '' '' h) \<and>
        js_split CHR '' '' h ! 1 = t \<and> t \<noteq> [] \<longrightarrow>
        (case jwt_verify L t (JWT_SECRET W) (now W) of
           Inl err \<Rightarrow> authenticateToken L W req next = token_invalido_ou_expirado
         | Inr decoded \<Rightarrow>
             authenticateToken L W req next = next (req\<lparr>user := Some decoded\<rparr>)))"
  by (auto simp: authenticateToken_cases header_token_parts header_token_None
      split: sum.splits)

theorem gate_outcome_witness:
  "authenticateToken demo_lib (demo_world 2000)
       \<lparr>headers = Map.empty, body = Map.empty, user = None\<rparr> whoami = acesso_requerido
   \<and> authenticateToken demo_lib (demo_world 2000) (bearer ''Bearer '') whoami = acesso_requerido
   \<and> authenticateToken demo_lib (demo_world 2000) (bearer ''Bearer abc'') whoami =
        token_invalido_ou_expirado
   \<and> authenticateToken demo_lib (demo_world 2000) (bearer ''Bearer ana-token'') whoami =
        whoami ((bearer ''Bearer ana-token'')\<lparr>user := Some ana_payload\<rparr>)"
proof -
  have 1: "authenticateToken demo_lib (demo_world 2000)
       \<lparr>headers = Map.empty, body = Map.empty, user = None\<rparr> whoami = acesso_requerido"
    using gate_outcome [of "\<lparr>headers = Map.empty, body = Map.empty, user = None\<rparr>"
        demo_lib "demo_world 2000" whoami]
    by simp
  have 2: "authenticateToken demo_lib (demo_world 2000) (bearer ''Bearer '') whoami =
       acesso_requerido"
    using gate_outcome [of "bearer ''Bearer ''" demo_lib "demo_world 2000" whoami]
    by (simp add: bearer_def)
  have 3: "authenticateToken demo_lib (demo_world 2000) (bearer ''Bearer abc'') whoami =
        token_invalido_ou_expirado"
    using gate_outcome [of "bearer ''Bearer abc''" demo_lib "demo_world 2000" whoami
        "''Bearer abc''" "''abc''"]
    by (simp add: bearer_def demo_verify_other)
  have 4: "authenticateToken demo_lib (demo_world 2000) (bearer ''Bearer ana-token'') whoami =
        whoami ((bearer ''Bearer ana-token'')\<lparr>user := Some ana_payload\<rparr>)"
    using gate_outcome [of "bearer ''Bearer ana-token''" demo_lib "demo_world 2000" whoami
        "''Bearer ana-token''" "''ana-token''"]
    by (simp add: bearer_def demo_verify_ana [simplified demo_world_def] demo_world_def)
  from 1 2 3 4 show ?thesis by simp
qed

text \<open>
  Claim C2.  A token issued by \<^verbatim>\<open>generateToken\<close> for a user id, an e-mail and a name,
  verified under the same secret: while the clock is before issue time plus 24 hours,
  \<^verbatim>\<open>jwt.verify\<close> returns a payload with exactly these three claims and the gate hands
  it to the downstream handler; from issue time plus 24 hours on, \<^verbatim>\<open>jwt.verify\<close> reports
  the token as expired and the gate answers 403.  The clock is the one both library
  calls read, in whole seconds; the serialisation of the library is assumed to give
  back the token it was given.
\<close>

theorem token_round_trip:
  assumes secret: "env_JWT_SECRET W = env_JWT_SECRET W0"
    and p: "p = \<lparr>userId = uid, email = em, nome = nm, iat = now W0,
                 exp = now W0 + 24 * 60 * 60\<rparr>"
    and codec: "jwt_decode L (jwt_encode L (p, hmac L (JWT_SECRET W0) p)) =
                  Some (p, hmac L (JWT_SECRET W0) p)"
    and tok: "tok = generateToken L W0 uid em nm"
    and req: "header_token (headers req ''authorization'') = Some tok" "tok \<noteq> []"
  shows "(now W < now W0 + 24 * 60 * 60 \<longrightarrow>
            jwt_verify L tok (JWT_SECRET W) (now W) = Inr p \<and>
            userId p = uid \<and> email p = em \<and> nome p = nm \<and>
            authenticateToken L W req next = next (req\<lparr>user := Some p\<rparr>))
       \<and> (now W0 + 24 * 60 * 60 \<le> now W \<longrightarrow>
            jwt_verify L tok (JWT_SECRET W) (now W) = Inl (TokenExpiredError ''jwt expired'') \<and>
            authenticateToken L W req next = token_invalido_ou_expirado)"
proof -
  have same: "JWT_SECRET W = JWT_SECRET W0"
    using secret by (simp add: JWT_SECRET_def)
  have v: "jwt_verify L tok (JWT_SECRET W) (now W) =
             (if now W0 + 24 * 60 * 60 \<le> now W then Inl (TokenExpiredError ''jwt expired'')
              else Inr p)"
    using codec p
    by (simp add: tok generateToken_def same expiresIn_def jwt_verify_def jwt_sign_def Let_def)
  show ?thesis
    using v req p by (simp add: authenticateToken_cases)
qed

theorem token_round_trip_witness:
  "generateToken demo_lib (demo_world 1000) 1 ''ana@x.com'' ''Ana Silva'' = ''ana-token''
   \<and> jwt_verify demo_lib ''ana-token'' (JWT_SECRET (demo_world 87399)) 87399 = Inr ana_payload
   \<and> authenticateToken demo_lib (demo_world 87399) (bearer ''Bearer ana-token'') whoami =
       \<lparr>status = 200, json = JNum 1\<rparr>
   \<and> jwt_verify demo_lib ''ana-token'' (JWT_SECRET (demo_world 87400)) 87400 =
       Inl (TokenExpiredError ''jwt expired'')
   \<and> authenticateToken demo_lib (demo_world 87400) (bearer ''Bearer ana-token'') whoami =
       token_invalido_ou_expirado"
proof -
  have codec: "jwt_decode demo_lib
      (jwt_encode demo_lib (ana_payload, hmac demo_lib (JWT_SECRET (demo_world 1000)) ana_payload)) =
      Some (ana_payload, hmac demo_lib (JWT_SECRET (demo_world 1000)) ana_payload)"
    by (simp add: demo_lib_def ana_jwt_def demo_hmac_def JWT_SECRET_def demo_world_def
        ana_payload_def)
  have p: "ana_payload = \<lparr>userId = 1, email = ''ana@x.com'', nome = ''Ana Silva'',
      iat = now (demo_world 1000), exp = now (demo_world 1000) + 24 * 60 * 60\<rparr>"
    by (simp add: ana_payload_def demo_world_def)
  have hdr: "header_token (headers (bearer ''Bearer ana-token'') ''authorization'') =
      Some ''ana-token''"
    by (simp add: bearer_def header_token_def js_index_def)
  have tok: "''ana-token'' = generateToken demo_lib (demo_world 1000) 1 ''ana@x.com'' ''Ana Silva''"
    by (rule demo_generate [symmetric])
  have ne: "''ana-token'' \<noteq> []"
    by simp
  have s1: "env_JWT_SECRET (demo_world 87399) = env_JWT_SECRET (demo_world 1000)"
    and s2: "env_JWT_SECRET (demo_world 87400) = env_JWT_SECRET (demo_world 1000)"
    by (simp_all add: demo_world_def)
  have before:
    "jwt_verify demo_lib ''ana-token'' (JWT_SECRET (demo_world 87399)) 87399 = Inr ana_payload
     \<and> authenticateToken demo_lib (demo_world 87399) (bearer ''Bearer ana-token'') whoami =
       \<lparr>status = 200, json = JNum 1\<rparr>"
    using token_round_trip [OF s1 p codec tok hdr ne, of whoami]
    by (simp add: demo_world_def whoami_def ana_payload_def)
  have after:
    "jwt_verify demo_lib ''ana-token'' (JWT_SECRET (demo_world 87400)) 87400 =
       Inl (TokenExpiredError ''jwt expired'')
     \<and> authenticateToken demo_lib (demo_world 87400) (bearer ''Bearer ana-token'') whoami =
       token_invalido_ou_expirado"
    using token_round_trip [OF s2 p codec tok hdr ne, of whoami]
    by (simp add: demo_world_def)
  from before after demo_generate show ?thesis by simp
qed

text \<open>
  Claim C10.  The gate never looks at the scheme word.  For a header made of any first
  word, one space and a non-empty token, the token alone decides: 403 when
  \<^verbatim>\<open>jwt.verify\<close> reports an error, the downstream handler with the claims attached
  otherwise.  For a header without a space (a bare token, or the word \<^verbatim>\<open>Bearer\<close> alone)
  the gate answers 401.
\<close>

theorem gate_ignores_scheme:
  "(CHR '' '' \<notin> set w \<and> CHR '' '' \<notin> set t \<and> t \<noteq> [] \<and>
      headers req ''authorization'' = Some (w @ '' '' @ t) \<longrightarrow>
      authenticateToken L W req next =
        (case jwt_verify L t (JWT_SECRET W) (now W) of
           Inl err \<Rightarrow> token_invalido_ou_expirado
         | Inr decoded \<Rightarrow> next (req\<lparr>user := Some decoded\<rparr>)))
   \<and> (CHR '' '' \<notin> set h \<and> headers req' ''authorization'' = Some h \<longrightarrow>
        authenticateToken L W req' next = acesso_requerido)"
proof (intro conjI impI)
  assume a: "CHR '' '' \<notin> set w \<and> CHR '' '' \<notin> set t \<and> t \<noteq> [] \<and>
      headers req ''authorization'' = Some (w @ '' '' @ t)"
  then have "header_token (headers req ''authorization'') = Some t"
    using header_token_two_words [of w t] by simp
  with a show "authenticateToken L W req next =
        (case jwt_verify L t (JWT_SECRET W) (now W) of
           Inl err \<Rightarrow> token_invalido_ou_expirado
         | Inr decoded \<Rightarrow> next (req\<lparr>user := Some decoded\<rparr>))"
    by (simp add: authenticateToken_cases)
next
  assume b: "CHR '' '' \<notin> set h \<and> headers req' ''authorization'' = Some h"
  then have "js_not (header_token (headers req' ''authorization''))"
    using header_token_no_space [of h] by simp
  then show "authenticateToken L W req' next = acesso_requerido"
    by (simp add: authenticateToken_cases js_not_def split: option.splits)
qed

theorem gate_ignores_scheme_witness:
  "authenticateToken demo_lib (demo_world 2000) (bearer ''Basic ana-token'') whoami =
     \<lparr>status = 200, json = JNum 1\<rparr>
   \<and> authenticateToken demo_lib (demo_world 2000) (bearer ''ana-token'') whoami =
       acesso_requerido
   \<and> authenticateToken demo_lib (demo_world 2000) (bearer ''Bearer'') whoami =
       acesso_requerido"
proof -
  have 1: "authenticateToken demo_lib (demo_world 2000) (bearer ''Basic ana-token'') whoami =
     \<lparr>status = 200, json = JNum 1\<rparr>"
    using gate_ignores_scheme [of "''Basic''" "''ana-token''" "bearer ''Basic ana-token''"
        demo_lib "demo_world 2000" whoami "''Bearer''" "bearer ''Bearer''"]
    by (simp add: bearer_def demo_verify_ana [simplified demo_world_def] demo_world_def whoami_def ana_payload_def)
  have 2: "authenticateToken demo_lib (demo_world 2000) (bearer ''ana-token'') whoami =
       acesso_requerido"
    using gate_ignores_scheme [of "''Basic''" "''ana-token''" "bearer ''Basic ana-token''"
        demo_lib "demo_world 2000" whoami "''ana-token''" "bearer ''ana-token''"]
    by (simp add: bearer_def)
  have 3: "authenticateToken demo_lib (demo_world 2000) (bearer ''Bearer'') whoami =
       acesso_requerido"
    using gate_ignores_scheme [of "''Basic''" "''ana-token''" "bearer ''Basic ana-token''"
        demo_lib "demo_world 2000" whoami "''Bearer''" "bearer ''Bearer''"]
    by (simp add: bearer_def)
  from 1 2 3 show ?thesis by simp
qed

section \<open>The route handlers\<close>

subsection \<open>Queries, and the check of a token\<close>

lemma alone_conc: "alone W \<Longrightarrow> conc W k st = st"
  by (simp add: alone_def)

lemma select_email_ativo_query:
  "fault W k = None \<Longrightarrow>
   pool_query W k (select_usuarios_where_email_ativo e) st =
     (Inr (filter (\<lambda>u. usuario_email u = e \<and> ativo u) (usuarios (conc W k st))), conc W k st)"
  by (simp add: pool_query_def select_usuarios_where_email_ativo_def Let_def)

lemma select_id_ativo_query:
  "fault W k = None \<Longrightarrow>
   pool_query W k (select_id_nome_email_where_id_ativo i) st =
     (Inr (map (\<lambda>u. (usuario_id u, usuario_nome u, usuario_email u))
             (filter (\<lambda>u. usuario_id u = i \<and> ativo u) (usuarios (conc W k st)))),
      conc W k st)"
  by (simp add: pool_query_def select_id_nome_email_where_id_ativo_def Let_def)

lemma filter_desativados:
  "filter (\<lambda>u. usuario_id u = i \<and> ativo u)
     (map (\<lambda>u. if usuario_id u = i then u\<lparr>ativo := False\<rparr> else u) xs) = []"
  by (induction xs) simp_all

lemma desativar_none_active:
  "filter (\<lambda>u. usuario_id u = i \<and> ativo u) (usuarios (desativar i s)) = []"
  by (simp add: desativar_def filter_desativados)

lemma verify_valid_token:
  assumes tok: "header_token (headers req ''authorization'') = Some tok" "tok \<noteq> []"
    and valid: "jwt_verify L tok (JWT_SECRET W) (now W) = Inr decoded"
    and answered: "fault W 0 = None"
  shows "verify L W req s =
      (case filter (\<lambda>u. usuario_id u = userId decoded \<and> ativo u) (usuarios (conc W 0 s)) of
         [] \<Rightarrow> (usuario_inativo, conc W 0 s)
       | u # us \<Rightarrow>
          (\<lparr>status = 200,
            json = JObj [(''valid'', JBool True),
                         (''user'', public_user (usuario_id u) (usuario_nome u) (usuario_email u))]\<rparr>,
           conc W 0 s))"
  using tok valid
  by (simp add: verify_def js_not_def select_id_ativo_query [OF answered] usuario_inativo_def
      Let_def split: list.splits)

lemma demo_login_chains:
  "login_chains demo_lib (post [(''email'', e), (''senha'', s)]) =
     (if CHR ''@'' \<in> set e then [] else [JObj [(''param'', JStr ''email'')]]) @
     (if s \<noteq> [] then [] else [JObj [(''param'', JStr ''senha'')]])"
  by (simp add: login_chains_def check_def field_def post_def demo_lib_def isLength_def
      Suc_le_eq)

lemma bearer_ana_token:
  "header_token (headers (bearer ''Bearer ana-token'') ''authorization'') = Some ''ana-token''"
  by (simp add: bearer_def header_token_def js_index_def)

text \<open>
  Claim C4.  Two logins of valid shape whose first query is answered: one for which no
  active user has the e-mail, one for which an active user has it but \<^verbatim>\<open>bcrypt.compare\<close>
  rejects the password.  The two responses are equal: status 401 and the body
  \<^verbatim>\<open>{error: "Email ou senha incorretos"}\<close>.
\<close>

theorem login_failure_indistinguishable:
  assumes shape: "login_chains L req1 = []" "login_chains L req2 = []"
    and answered: "fault W1 0 = None" "fault W2 0 = None"
    and unknown:
      "filter (\<lambda>u. usuario_email u = normalizeEmail L (field req1 ''email'') \<and> ativo u)
         (usuarios (conc W1 0 st1)) = []"
    and known:
      "filter (\<lambda>u. usuario_email u = normalizeEmail L (field req2 ''email'') \<and> ativo u)
         (usuarios (conc W2 0 st2)) = u # us"
    and wrong: "\<not> bcrypt_compare L (field req2 ''senha'') (senha u)"
  shows "fst (login L W1 req1 st1) = fst (login L W2 req2 st2)
       \<and> status (fst (login L W1 req1 st1)) = 401
       \<and> json (fst (login L W1 req1 st1)) = JObj [(''error'', JStr ''Email ou senha incorretos'')]"
proof -
  have 1: "login L W1 req1 st1 = (credenciais_incorretas, conc W1 0 st1)"
    using shape(1) unknown
    by (simp add: login_def select_email_ativo_query [OF answered(1)])
  have 2: "login L W2 req2 st2 = (credenciais_incorretas, conc W2 0 st2)"
    using shape(2) known wrong
    by (simp add: login_def select_email_ativo_query [OF answered(2)])
  show ?thesis
    by (simp add: 1 2 credenciais_incorretas_def)
qed

theorem login_failure_indistinguishable_witness:
  "fst (login demo_lib (demo_world 2000) (post [(''email'', ''bob@x.com''), (''senha'', ''segredo1'')])
          ana_db) =
   fst (login demo_lib (demo_world 2000) (post [(''email'', ''ana@x.com''), (''senha'', ''errada'')])
          ana_db)
   \<and> fst (login demo_lib (demo_world 2000)
            (post [(''email'', ''bob@x.com''), (''senha'', ''segredo1'')]) ana_db) =
       \<lparr>status = 401, json = JObj [(''error'', JStr ''Email ou senha incorretos'')]\<rparr>"
proof -
  let ?bob = "post [(''email'', ''bob@x.com''), (''senha'', ''segredo1'')]"
  let ?ana = "post [(''email'', ''ana@x.com''), (''senha'', ''errada'')]"
  let ?W = "demo_world 2000"
  have shape: "login_chains demo_lib ?bob = []" "login_chains demo_lib ?ana = []"
    by (simp_all add: demo_login_chains)
  have answered: "fault ?W 0 = None"
    by (simp add: demo_world_def)
  have unknown:
    "filter (\<lambda>u. usuario_email u = normalizeEmail demo_lib (field ?bob ''email'') \<and> ativo u)
       (usuarios (conc ?W 0 ana_db)) = []"
    by (simp add: demo_world_def ana_db_def ana_def demo_lib_def field_def post_def)
  have known:
    "filter (\<lambda>u. usuario_email u = normalizeEmail demo_lib (field ?ana ''email'') \<and> ativo u)
       (usuarios (conc ?W 0 ana_db)) = ana # []"
    by (simp add: demo_world_def ana_db_def ana_def demo_lib_def field_def post_def)
  have wrong: "\<not> bcrypt_compare demo_lib (field ?ana ''senha'') (senha ana)"
    by (simp add: demo_lib_def field_def post_def ana_def)
  from login_failure_indistinguishable [OF shape answered answered unknown known wrong]
  show ?thesis
    by (cases "fst (login demo_lib ?W ?bob ana_db)") simp
qed

text \<open>
  Claim C5.  A request to \<^verbatim>\<open>/verify\<close> whose token passes \<^verbatim>\<open>jwt.verify\<close>, with the query
  answered: the handler looks the token's \<^verbatim>\<open>userId\<close> up among the active users.  If
  there is none, the response is the 401 failure \<open>usuario_inativo\<close> although the
  signature was valid; if there is one, the response is 200 with \<^verbatim>\<open>valid: true\<close> and
  the id, name and e-mail of that user.  In particular the request fails once the
  user of the token has been deactivated.
\<close>

theorem verify_rechecks_active_user:
  assumes tok: "header_token (headers req ''authorization'') = Some tok" "tok \<noteq> []"
    and valid: "jwt_verify L tok (JWT_SECRET W) (now W) = Inr decoded"
    and answered: "fault W 0 = None"
  shows "(filter (\<lambda>u. usuario_id u = userId decoded \<and> ativo u) (usuarios (conc W 0 st)) = [] \<longrightarrow>
            fst (verify L W req st) = usuario_inativo \<and> status (fst (verify L W req st)) = 401)
       \<and> (filter (\<lambda>u. usuario_id u = userId decoded \<and> ativo u) (usuarios (conc W 0 st)) = u # us \<longrightarrow>
            fst (verify L W req st) =
              \<lparr>status = 200,
               json = JObj [(''valid'', JBool True),
                            (''user'', JObj [(''id'', JNum (usuario_id u)),
                                             (''nome'', JStr (usuario_nome u)),
                                             (''email'', JStr (usuario_email u))])]\<rparr>)
       \<and> (alone W \<longrightarrow>
            fst (verify L W req (desativar (userId decoded) st)) = usuario_inativo)"
proof (intro conjI impI)
  assume "filter (\<lambda>u. usuario_id u = userId decoded \<and> ativo u) (usuarios (conc W 0 st)) = []"
  then have "verify L W req st = (usuario_inativo, conc W 0 st)"
    by (simp add: verify_valid_token [OF tok valid answered])
  then show "fst (verify L W req st) = usuario_inativo"
    and "status (fst (verify L W req st)) = 401"
    by (simp_all add: usuario_inativo_def)
next
  assume "filter (\<lambda>u. usuario_id u = userId decoded \<and> ativo u) (usuarios (conc W 0 st)) = u # us"
  then show "fst (verify L W req st) =
      \<lparr>status = 200,
       json = JObj [(''valid'', JBool True),
                    (''user'', JObj [(''id'', JNum (usuario_id u)),
                                     (''nome'', JStr (usuario_nome u)),
                                     (''email'', JStr (usuario_email u))])]\<rparr>"
    by (simp add: verify_valid_token [OF tok valid answered] public_user_def)
next
  assume "alone W"
  then show "fst (verify L W req (desativar (userId decoded) st)) = usuario_inativo"
    by (simp add: verify_valid_token [OF tok valid answered] alone_conc desativar_none_active)
qed

theorem verify_rechecks_active_user_witness:
  "fst (verify demo_lib (demo_world 2000) (bearer ''Bearer ana-token'') ana_db) =
     \<lparr>status = 200,
      json = JObj [(''valid'', JBool True),
                   (''user'', JObj [(''id'', JNum 1), (''nome'', JStr ''Ana Silva''),
                                    (''email'', JStr ''ana@x.com'')])]\<rparr>
   \<and> fst (verify demo_lib (demo_world 2000) (bearer ''Bearer ana-token'') (desativar 1 ana_db)) =
       usuario_inativo
   \<and> fst (verify demo_lib (demo_world 2000) (bearer ''Bearer ana-token'') empty_db) =
       usuario_inativo"
proof -
  let ?W = "demo_world 2000"
  let ?req = "bearer ''Bearer ana-token''"
  have ne: "''ana-token'' \<noteq> []"
    by simp
  have valid: "jwt_verify demo_lib ''ana-token'' (JWT_SECRET ?W) (now ?W) = Inr ana_payload"
    using demo_verify_ana by (simp add: demo_world_def)
  have answered: "fault ?W 0 = None"
    by (simp add: demo_world_def)
  have alone: "alone ?W"
    by (simp add: alone_def demo_world_def)
  note th = verify_rechecks_active_user [OF bearer_ana_token ne valid answered]
  have found: "filter (\<lambda>u. usuario_id u = userId ana_payload \<and> ativo u)
      (usuarios (conc ?W 0 ana_db)) = ana # []"
    by (simp add: demo_world_def ana_db_def ana_def ana_payload_def)
  have missing: "filter (\<lambda>u. usuario_id u = userId ana_payload \<and> ativo u)
      (usuarios (conc ?W 0 empty_db)) = []"
    by (simp add: demo_world_def empty_db_def)
  have uid: "userId ana_payload = 1"
    by (simp add: ana_payload_def)
  from th [of ana_db ana "[]"] found alone
  have 1: "fst (verify demo_lib ?W ?req ana_db) =
     \<lparr>status = 200,
      json = JObj [(''valid'', JBool True),
                   (''user'', JObj [(''id'', JNum 1), (''nome'', JStr ''Ana Silva''),
                                    (''email'', JStr ''ana@x.com'')])]\<rparr>"
    and 2: "fst (verify demo_lib ?W ?req (desativar 1 ana_db)) = usuario_inativo"
    by (simp_all add: ana_def uid)
  from th [of empty_db ana "[]"] missing
  have 3: "fst (verify demo_lib ?W ?req empty_db) = usuario_inativo"
    by simp
  from 1 2 3 show ?thesis by simp
qed

subsection \<open>Registration and login\<close>

lemma filter_Nil_iff_list_ex: "filter P xs = [] \<longleftrightarrow> \<not> list_ex P xs"
  by (induction xs) simp_all

lemma list_ex_either:
  "list_ex (\<lambda>u. P u \<or> Q u) xs \<longleftrightarrow> list_ex P xs \<or> list_ex Q xs"
  by (induction xs) auto

lemma select_id_where_email_query:
  "fault W k = None \<Longrightarrow>
   pool_query W k (select_id_where_email e) st =
     (Inr (map usuario_id (filter (\<lambda>u. usuario_email u = e) (usuarios (conc W k st)))),
      conc W k st)"
  by (simp add: pool_query_def select_id_where_email_def Let_def)

lemma select_id_where_cpf_query:
  "fault W k = None \<Longrightarrow>
   pool_query W k (select_id_where_cpf c) st =
     (Inr (map usuario_id (filter (\<lambda>u. cpf u = c) (usuarios (conc W k st)))), conc W k st)"
  by (simp add: pool_query_def select_id_where_cpf_def Let_def)

lemma insert_usuario_query:
  "fault W k = None \<Longrightarrow>
   pool_query W k (insert_usuario ts n c e t h) st =
     (if list_ex (\<lambda>u. usuario_email u = e) (usuarios (conc W k st)) \<or>
         list_ex (\<lambda>u. cpf u = c) (usuarios (conc W k st))
      then (Inl unique_violation, conc W k st)
      else (Inr [(next_id (conc W k st), n, e)],
            (conc W k st)\<lparr>usuarios := usuarios (conc W k st) @
               [\<lparr>usuario_id = next_id (conc W k st), usuario_nome = n, cpf = c,
                 usuario_email = e, telefone = t, senha = h, ativo = True,
                 ultima_atualizacao = ts\<rparr>],
               next_id := Suc (next_id (conc W k st))\<rparr>))"
  by (simp add: pool_query_def insert_usuario_def Let_def list_ex_either)

lemma update_ultima_atualizacao_query:
  "fault W k = None \<Longrightarrow>
   pool_query W k (update_ultima_atualizacao ts i) st =
     (Inr (), (conc W k st)\<lparr>usuarios :=
        map (\<lambda>u. if usuario_id u = i then u\<lparr>ultima_atualizacao := ts\<rparr> else u)
          (usuarios (conc W k st))\<rparr>)"
  by (simp add: pool_query_def update_ultima_atualizacao_def Let_def)

lemma pool_query_fault:
  "fault W k = Some err \<Longrightarrow> pool_query W k stmt st = (Inl err, conc W k st)"
  by (simp add: pool_query_def Let_def)

lemma register_alone:
  assumes shape: "register_chains L req = []"
    and answered: "fault W 0 = None" "fault W 1 = None" "fault W 2 = None"
    and alone: "alone W"
  shows "register L W req st =
    (if list_ex (\<lambda>u. usuario_email u = normalizeEmail L (field req ''email'')) (usuarios st)
     then (email_ja_cadastrado, st)
     else if list_ex (\<lambda>u. cpf u = field req ''cpf'') (usuarios st)
     then (cpf_ja_cadastrado, st)
     else (\<lparr>status = 201,
            json = JObj
              [(''message'', JStr (''Usu'' @ [aacute] @ ''rio cadastrado com sucesso'')),
               (''token'', JStr (generateToken L W (next_id st)
                                   (normalizeEmail L (field req ''email''))
                                   (trim (field req ''nome'')))),
               (''user'', public_user (next_id st) (trim (field req ''nome''))
                            (normalizeEmail L (field req ''email'')))]\<rparr>,
           st\<lparr>usuarios := usuarios st @
               [\<lparr>usuario_id = next_id st, usuario_nome = trim (field req ''nome''),
                 cpf = field req ''cpf'',
                 usuario_email = normalizeEmail L (field req ''email''),
                 telefone = body req ''telefone'',
                 senha = bcrypt_hash L (field req ''senha'') 12 (salt W), ativo = True,
                 ultima_atualizacao = now W\<rparr>],
               next_id := Suc (next_id st)\<rparr>))"
proof -
  have second: "fault W (Suc 0) = None"
    using answered(2) by simp
  show ?thesis
    using shape
    by (simp add: register_def Let_def select_id_where_email_query [OF answered(1)]
        select_id_where_cpf_query [OF second] insert_usuario_query [OF answered(3)]
        alone_conc [OF alone] filter_Nil_iff_list_ex email_ja_cadastrado_def
        cpf_ja_cadastrado_def)
qed

lemma chains_ignore_hash:
  "register_chains (L\<lparr>bcrypt_hash := h\<rparr>) req = register_chains L req"
  by (simp add: register_chains_def check_def check_optional_def split: option.splits)





lemma login_cases:
  "login L W req st =
     (if login_chains L req \<noteq> [] then (dados_invalidos (login_chains L req), st)
      else
        (case fault W 0 of
           Some err \<Rightarrow> (erro_interno err, conc W 0 st)
         | None \<Rightarrow>
            (case filter (\<lambda>u. usuario_email u = normalizeEmail L (field req ''email'') \<and> ativo u)
                    (usuarios (conc W 0 st)) of
               [] \<Rightarrow> (credenciais_incorretas, conc W 0 st)
             | u # us \<Rightarrow>
                 if \<not> bcrypt_compare L (field req ''senha'') (senha u)
                 then (credenciais_incorretas, conc W 0 st)
                 else
                   (case fault W 1 of
                      Some err \<Rightarrow> (erro_interno err, conc W 1 (conc W 0 st))
                    | None \<Rightarrow>
                        (\<lparr>status = 200,
                          json = JObj
                            [(''message'', JStr ''Login realizado com sucesso''),
                             (''token'', JStr (generateToken L W (usuario_id u)
                                                 (usuario_email u) (usuario_nome u))),
                             (''user'', public_user (usuario_id u) (usuario_nome u)
                                          (usuario_email u))]\<rparr>,
                         (conc W 1 (conc W 0 st))\<lparr>usuarios :=
                            map (\<lambda>v. if usuario_id v = usuario_id u
                                      then v\<lparr>ultima_atualizacao := now W\<rparr> else v)
                              (usuarios (conc W 1 (conc W 0 st)))\<rparr>)))))"
proof (cases "fault W 0")
  case None
  show ?thesis
  proof (cases "fault W (Suc 0)")
    case second: None
    show ?thesis
      by (simp add: login_def Let_def select_email_ativo_query [OF None]
          update_ultima_atualizacao_query [OF second] second None split: list.splits)
  next
    case second: (Some err)
    show ?thesis
      by (simp add: login_def Let_def select_email_ativo_query [OF None]
          pool_query_fault [OF second] second None split: list.splits)
  qed
next
  case (Some err)
  then show ?thesis
    by (simp add: login_def Let_def pool_query_fault [OF Some])
qed

lemma demo_register_chains:
  "register_chains demo_lib ana_register = []"
  "register_chains demo_lib rival_register = []"
  by (simp_all add: register_chains_def check_def check_optional_def field_def
      ana_register_def rival_register_def post_def demo_lib_def isLength_def cpf_regex_def
      is_digit_def)

lemma demo_alone: "alone (demo_world t)"
  by (simp add: alone_def demo_world_def)

lemma demo_answered: "fault (demo_world t) k = None"
  by (simp add: demo_world_def)

lemma short_senha_rejected:
  "length (field req ''senha'') < 6 \<Longrightarrow>
   formatError L ''senha'' (body req ''senha'') \<in> set (register_chains L req)"
  by (simp add: register_chains_def check_def isLength_def)

lemma register_invalid:
  "register_chains L req \<noteq> [] \<Longrightarrow>
   register L W req st = (dados_invalidos (register_chains L req), st)"
  by (simp add: register_def)

lemma login_status:
  "status (fst (login L W req st)) \<in> {200, 400, 401, 500}"
  by (simp add: login_cases dados_invalidos_def erro_interno_def credenciais_incorretas_def
      split: option.splits list.splits)

lemma rival_served:
  "snd (register demo_lib (demo_world 1000) rival_register empty_db) =
     \<lparr>usuarios =
        [\<lparr>usuario_id = 1, usuario_nome = ''Ana Souza'', cpf = ''987.654.321-00'',
          usuario_email = ''ana@x.com'', telefone = None, senha = ''s1outrasenha'',
          ativo = True, ultima_atualizacao = 1000\<rparr>],
      next_id = 2\<rparr>"
  unfolding register_alone [OF demo_register_chains(2) demo_answered demo_answered
      demo_answered demo_alone]
  by (simp add: empty_db_def rival_register_def post_def field_def demo_lib_def trim_def
      is_space_def demo_world_def)

text \<open>
  Claim C3.  What \<^verbatim>\<open>POST /register\<close> does when the insert is rejected for uniqueness:
  for a request of valid shape that passed both pre-checks, with all three queries
  reaching the store, a row with the same e-mail or national identifier present at
  insert time makes the response 500 with \<^verbatim>\<open>error: "Erro interno do servidor"\<close> and the
  message of the rejected insert as details.  The handler's \<^verbatim>\<open>catch\<close> block never looks
  at \<^verbatim>\<open>err.code\<close>, unlike the handlers of \<^verbatim>\<open>POST /api/motoristas\<close> and
  \<^verbatim>\<open>POST /api/caminhoes\<close>, which answer 409 for the code 23505.
\<close>

theorem register_insert_conflict:
  assumes shape: "register_chains L req = []"
    and answered: "fault W 0 = None" "fault W 1 = None" "fault W 2 = None"
    and e: "e = normalizeEmail L (field req ''email'')"
    and c: "c = field req ''cpf''"
    and email_check: "\<not> list_ex (\<lambda>u. usuario_email u = e) (usuarios (conc W 0 st))"
    and cpf_check: "\<not> list_ex (\<lambda>u. cpf u = c) (usuarios (conc W 1 (conc W 0 st)))"
    and conflict: "list_ex (\<lambda>u. usuario_email u = e \<or> cpf u = c)
                     (usuarios (conc W 2 (conc W 1 (conc W 0 st))))"
  shows "register L W req st =
           (erro_interno unique_violation, conc W 2 (conc W 1 (conc W 0 st)))
       \<and> status (fst (register L W req st)) = 500
       \<and> json (fst (register L W req st)) =
           JObj [(''error'', JStr ''Erro interno do servidor''),
                 (''details'', JStr (message unique_violation))]"
proof -
  have second: "fault W (Suc 0) = None"
    using answered(2) by simp
  have "register L W req st =
           (erro_interno unique_violation, conc W 2 (conc W 1 (conc W 0 st)))"
    using shape email_check cpf_check conflict
    by (simp add: register_def Let_def select_id_where_email_query [OF answered(1)]
        select_id_where_cpf_query [OF second] insert_usuario_query [OF answered(3)]
        filter_Nil_iff_list_ex list_ex_either e c)
  then show ?thesis
    by (simp add: erro_interno_def)
qed

theorem register_insert_conflict_witness:
  "register demo_lib race_world ana_register empty_db =
     (\<lparr>status = 500,
       json = JObj [(''error'', JStr ''Erro interno do servidor''),
                    (''details'', JStr ''duplicate key value violates unique constraint'')]\<rparr>,
      \<lparr>usuarios =
         [\<lparr>usuario_id = 1, usuario_nome = ''Ana Souza'', cpf = ''987.654.321-00'',
           usuario_email = ''ana@x.com'', telefone = None, senha = ''s1outrasenha'',
           ativo = True, ultima_atualizacao = 1000\<rparr>],
       next_id = 2\<rparr>)"
proof -
  have answered: "fault race_world 0 = None" "fault race_world 1 = None"
    "fault race_world 2 = None"
    by (simp_all add: race_world_def)
  have quiet: "conc race_world k st = st" if "k \<noteq> 2" for k st
    using that by (simp add: race_world_def)
  have served: "conc race_world 2 empty_db =
      snd (register demo_lib (demo_world 1000) rival_register empty_db)"
    by (simp add: race_world_def)
  have e: "''ana@x.com'' = normalizeEmail demo_lib (field ana_register ''email'')"
    and c: "''123.456.789-01'' = field ana_register ''cpf''"
    by (simp_all add: demo_lib_def field_def ana_register_def post_def)
  have email_check:
    "\<not> list_ex (\<lambda>u. usuario_email u = ''ana@x.com'') (usuarios (conc race_world 0 empty_db))"
    by (simp add: quiet) (simp add: empty_db_def)
  have cpf_check:
    "\<not> list_ex (\<lambda>u. cpf u = ''123.456.789-01'')
         (usuarios (conc race_world 1 (conc race_world 0 empty_db)))"
    by (simp add: quiet) (simp add: empty_db_def)
  have conflict:
    "list_ex (\<lambda>u. usuario_email u = ''ana@x.com'' \<or> cpf u = ''123.456.789-01'')
       (usuarios (conc race_world 2 (conc race_world 1 (conc race_world 0 empty_db))))"
    by (simp add: quiet served rival_served)
  from register_insert_conflict [OF demo_register_chains(1) answered e c email_check cpf_check
      conflict]
  show ?thesis
    by (simp add: quiet served rival_served erro_interno_def unique_violation_def)
qed










text \<open>
  Claim C8.  A registration whose password has fewer than six characters is rejected
  with 400 and the error object of the field \<^verbatim>\<open>senha\<close>; the response depends neither on
  the store, nor on the environment of the run, nor on the hash function, and the store
  is left as it was.  A login with a valid e-mail and any non-empty password passes the
  shape validation and is never answered with 400; when an active user has the e-mail,
  \<^verbatim>\<open>bcrypt.compare\<close> alone decides between 200 and 401.
\<close>

theorem password_length_policy:
  "(length (field req ''senha'') < 6 \<longrightarrow>
      register L W req st = (dados_invalidos (register_chains L req), st)
      \<and> status (fst (register L W req st)) = 400
      \<and> formatError L ''senha'' (body req ''senha'') \<in> set (register_chains L req)
      \<and> register (L\<lparr>bcrypt_hash := h\<rparr>) W' req st' = (fst (register L W req st), st'))
   \<and> (isEmail L (field req' ''email'') \<and> 1 \<le> length (field req' ''senha'') \<longrightarrow>
      login_chains L req' = []
      \<and> status (fst (login L W req' st)) \<noteq> 400
      \<and> (fault W 0 = None \<and> fault W 1 = None \<and>
         filter (\<lambda>v. usuario_email v = normalizeEmail L (field req' ''email'') \<and> ativo v)
           (usuarios (conc W 0 st)) = u # us \<longrightarrow>
           status (fst (login L W req' st)) =
             (if bcrypt_compare L (field req' ''senha'') (senha u) then 200 else 401)))"
proof (intro conjI impI)
  assume short: "length (field req ''senha'') < 6"
  then have bad: "register_chains L req \<noteq> []"
    using short_senha_rejected [of req L] by auto
  then show r: "register L W req st = (dados_invalidos (register_chains L req), st)"
    by (rule register_invalid)
  then show "status (fst (register L W req st)) = 400"
    by (simp add: dados_invalidos_def)
  from short show "formatError L ''senha'' (body req ''senha'') \<in> set (register_chains L req)"
    by (rule short_senha_rejected)
  from bad have "register (L\<lparr>bcrypt_hash := h\<rparr>) W' req st' =
      (dados_invalidos (register_chains L req), st')"
    using register_invalid [of "L\<lparr>bcrypt_hash := h\<rparr>" req W' st']
    by (simp add: chains_ignore_hash)
  with r show "register (L\<lparr>bcrypt_hash := h\<rparr>) W' req st' = (fst (register L W req st), st')"
    by simp
next
  assume shape: "isEmail L (field req' ''email'') \<and> 1 \<le> length (field req' ''senha'')"
  then show chains: "login_chains L req' = []"
    by (simp add: login_chains_def check_def isLength_def)
  then show "status (fst (login L W req' st)) \<noteq> 400"
    by (simp add: login_cases erro_interno_def credenciais_incorretas_def
        split: option.splits list.splits)
  assume "fault W 0 = None \<and> fault W 1 = None \<and>
         filter (\<lambda>v. usuario_email v = normalizeEmail L (field req' ''email'') \<and> ativo v)
           (usuarios (conc W 0 st)) = u # us"
  with chains show "status (fst (login L W req' st)) =
             (if bcrypt_compare L (field req' ''senha'') (senha u) then 200 else 401)"
    by (simp add: login_cases credenciais_incorretas_def)
qed

theorem password_length_policy_witness:
  "register demo_lib (demo_world 1000)
     (post [(''nome'', ''Ana Silva''), (''cpf'', ''123.456.789-01''),
            (''email'', ''ana@x.com''), (''senha'', ''abcde'')]) empty_db =
     (\<lparr>status = 400,
       json = JObj [(''error'', JStr (''Dados inv'' @ [aacute] @ ''lidos'')),
                    (''details'', JArr [JObj [(''param'', JStr ''senha'')]])]\<rparr>, empty_db)
   \<and> status (fst (login demo_lib (demo_world 2000)
                    (post [(''email'', ''bob@x.com''), (''senha'', ''abc'')]) two_db)) = 200
   \<and> status (fst (login demo_lib (demo_world 2000)
                    (post [(''email'', ''bob@x.com''), (''senha'', ''abd'')]) two_db)) = 401"
proof -
  let ?short = "post [(''nome'', ''Ana Silva''), (''cpf'', ''123.456.789-01''),
            (''email'', ''ana@x.com''), (''senha'', ''abcde'')]"
  let ?abc = "post [(''email'', ''bob@x.com''), (''senha'', ''abc'')]"
  let ?abd = "post [(''email'', ''bob@x.com''), (''senha'', ''abd'')]"
  let ?W = "demo_world 2000"
  have short: "length (field ?short ''senha'') < 6"
    by (simp add: field_def post_def)
  have chains: "register_chains demo_lib ?short = [JObj [(''param'', JStr ''senha'')]]"
    by (simp add: register_chains_def check_def check_optional_def field_def post_def
        demo_lib_def isLength_def cpf_regex_def is_digit_def)
  have shape: "isEmail demo_lib (field ?abc ''email'') \<and> 1 \<le> length (field ?abc ''senha'')"
    "isEmail demo_lib (field ?abd ''email'') \<and> 1 \<le> length (field ?abd ''senha'')"
    by (simp_all add: field_def post_def demo_lib_def)
  have rows:
    "fault ?W 0 = None \<and> fault ?W 1 = None \<and>
     filter (\<lambda>v. usuario_email v = normalizeEmail demo_lib (field ?abc ''email'') \<and> ativo v)
       (usuarios (conc ?W 0 two_db)) = bob # []"
    "fault ?W 0 = None \<and> fault ?W 1 = None \<and>
     filter (\<lambda>v. usuario_email v = normalizeEmail demo_lib (field ?abd ''email'') \<and> ativo v)
       (usuarios (conc ?W 0 two_db)) = bob # []"
    by (simp_all add: demo_world_def two_db_def ana_def bob_def field_def post_def demo_lib_def)
  have cmp: "bcrypt_compare demo_lib (field ?abc ''senha'') (senha bob)"
    "\<not> bcrypt_compare demo_lib (field ?abd ''senha'') (senha bob)"
    by (simp_all add: field_def post_def demo_lib_def bob_def)
  have 1: "register demo_lib (demo_world 1000) ?short empty_db =
     (\<lparr>status = 400,
       json = JObj [(''error'', JStr (''Dados inv'' @ [aacute] @ ''lidos'')),
                    (''details'', JArr [JObj [(''param'', JStr ''senha'')]])]\<rparr>, empty_db)"
    using password_length_policy [where req = ?short and L = demo_lib
        and W = "demo_world 1000" and st = empty_db] short
    by (simp add: chains dados_invalidos_def)
  have 2: "status (fst (login demo_lib ?W ?abc two_db)) = 200"
    using password_length_policy [where req' = ?abc and L = demo_lib and W = ?W
        and st = two_db and u = bob and us = "[]"] shape(1) rows(1) cmp(1)
    by simp
  have 3: "status (fst (login demo_lib ?W ?abd two_db)) = 401"
    using password_length_policy [where req' = ?abd and L = demo_lib and W = ?W
        and st = two_db and u = bob and us = "[]"] shape(2) rows(2) cmp(2)
    by simp
  from 1 2 3 show ?thesis by simp
qed

text \<open>
  Claim C9.  A login served without another request in between.  If it does not succeed
  (status other than 200), the store is unchanged.  If it succeeds, the new store
  differs from the old one only in the last-activity timestamp of the records that have
  the id of the user who logged in: the counter and the number of records are the same,
  every record keeps all its other fields, and every record with another id is
  unchanged.
\<close>

theorem login_frame:
  assumes alone: "alone W"
    and run: "login L W req st = (res, st')"
  shows "(status res \<noteq> 200 \<longrightarrow> st' = st)
       \<and> (status res = 200 \<longrightarrow>
            (\<exists>user \<in> set (usuarios st).
               usuario_email user = normalizeEmail L (field req ''email'') \<and> ativo user \<and>
               st' = st\<lparr>usuarios :=
                        map (\<lambda>u. if usuario_id u = usuario_id user
                                  then u\<lparr>ultima_atualizacao := now W\<rparr> else u)
                          (usuarios st)\<rparr> \<and>
               next_id st' = next_id st \<and>
               length (usuarios st') = length (usuarios st) \<and>
               (\<forall>i < length (usuarios st).
                  usuarios st' ! i =
                    (usuarios st ! i)\<lparr>ultima_atualizacao :=
                                         ultima_atualizacao (usuarios st' ! i)\<rparr> \<and>
                  (usuario_id (usuarios st ! i) \<noteq> usuario_id user \<longrightarrow>
                     usuarios st' ! i = usuarios st ! i))))"
proof (intro conjI impI)
  assume "status res \<noteq> 200"
  moreover have "status (fst (login L W req st)) \<noteq> 200 \<longrightarrow> snd (login L W req st) = st"
    by (simp add: login_cases alone_conc [OF alone] split: option.splits list.splits)
  ultimately show "st' = st"
    using run by simp
next
  assume ok: "status res = 200"
  let ?rows = "filter (\<lambda>u. usuario_email u = normalizeEmail L (field req ''email'') \<and> ativo u)
                 (usuarios st)"
  have "status (fst (login L W req st)) = 200 \<longrightarrow>
      (\<exists>user us. ?rows = user # us \<and>
         snd (login L W req st) = st\<lparr>usuarios :=
                        map (\<lambda>u. if usuario_id u = usuario_id user
                                  then u\<lparr>ultima_atualizacao := now W\<rparr> else u)
                          (usuarios st)\<rparr>)"
    by (simp add: login_cases alone_conc [OF alone] dados_invalidos_def erro_interno_def
        credenciais_incorretas_def split: option.splits list.splits)
  with run ok obtain user us where rows: "?rows = user # us"
    and st': "st' = st\<lparr>usuarios :=
                        map (\<lambda>u. if usuario_id u = usuario_id user
                                  then u\<lparr>ultima_atualizacao := now W\<rparr> else u)
                          (usuarios st)\<rparr>"
    by auto
  from rows have "user \<in> set ?rows"
    by simp
  then have user: "user \<in> set (usuarios st)"
    "usuario_email user = normalizeEmail L (field req ''email'')" "ativo user"
    by simp_all
  have frame: "\<forall>i < length (usuarios st).
                  usuarios st' ! i =
                    (usuarios st ! i)\<lparr>ultima_atualizacao :=
                                         ultima_atualizacao (usuarios st' ! i)\<rparr> \<and>
                  (usuario_id (usuarios st ! i) \<noteq> usuario_id user \<longrightarrow>
                     usuarios st' ! i = usuarios st ! i)"
    by (simp add: st')
  from user st' frame show "\<exists>user \<in> set (usuarios st).
               usuario_email user = normalizeEmail L (field req ''email'') \<and> ativo user \<and>
               st' = st\<lparr>usuarios :=
                        map (\<lambda>u. if usuario_id u = usuario_id user
                                  then u\<lparr>ultima_atualizacao := now W\<rparr> else u)
                          (usuarios st)\<rparr> \<and>
               next_id st' = next_id st \<and>
               length (usuarios st') = length (usuarios st) \<and>
               (\<forall>i < length (usuarios st).
                  usuarios st' ! i =
                    (usuarios st ! i)\<lparr>ultima_atualizacao :=
                                         ultima_atualizacao (usuarios st' ! i)\<rparr> \<and>
                  (usuario_id (usuarios st ! i) \<noteq> usuario_id user \<longrightarrow>
                     usuarios st' ! i = usuarios st ! i))"
    by (intro bexI [of _ user]) simp_all
qed

theorem login_frame_witness:
  "snd (login demo_lib (demo_world 2000)
          (post [(''email'', ''bob@x.com''), (''senha'', ''abc'')]) two_db) =
     \<lparr>usuarios = [ana, bob\<lparr>ultima_atualizacao := 2000\<rparr>], next_id = 3\<rparr>
   \<and> snd (login demo_lib (demo_world 2000)
            (post [(''email'', ''bob@x.com''), (''senha'', ''abd'')]) two_db) = two_db"
proof -
  let ?abc = "post [(''email'', ''bob@x.com''), (''senha'', ''abc'')]"
  let ?abd = "post [(''email'', ''bob@x.com''), (''senha'', ''abd'')]"
  let ?W = "demo_world 2000"
  have chains: "login_chains demo_lib ?abc = []" "login_chains demo_lib ?abd = []"
    by (simp_all add: demo_login_chains)
  have ok: "status (fst (login demo_lib ?W ?abc two_db)) = 200"
    unfolding login_cases chains
    by (simp add: demo_world_def two_db_def ana_def bob_def demo_lib_def field_def post_def)
  have ko: "status (fst (login demo_lib ?W ?abd two_db)) \<noteq> 200"
    unfolding login_cases chains
    by (simp add: demo_world_def two_db_def ana_def bob_def demo_lib_def field_def post_def
        credenciais_incorretas_def)
  have ids: "usuario_id ana \<noteq> usuario_id bob" "usuario_email ana \<noteq> ''bob@x.com''"
    "usuario_email bob = ''bob@x.com''" "ativo bob"
    by (simp_all add: ana_def bob_def)
  have e: "normalizeEmail demo_lib (field ?abc ''email'') = ''bob@x.com''"
    by (simp add: demo_lib_def field_def post_def)
  from login_frame [OF demo_alone [of 2000] surjective_pairing [of "login demo_lib ?W ?abc two_db"]]
    ok
  have 1: "snd (login demo_lib ?W ?abc two_db) =
     \<lparr>usuarios = [ana, bob\<lparr>ultima_atualizacao := 2000\<rparr>], next_id = 3\<rparr>"
    by (auto simp: e two_db_def ids demo_world_def)
  from login_frame [OF demo_alone [of 2000] surjective_pairing [of "login demo_lib ?W ?abd two_db"]]
    ko
  have 2: "snd (login demo_lib ?W ?abd two_db) = two_db"
    by simp
  from 1 2 show ?thesis by simp
qed

end
